theory Spec2Isabelle
  imports Complex_Main
begin

section \<open>JavaScript values used by the expense screen\<close>

subsection \<open>Numbers\<close>

text \<open>
  A JavaScript number is NaN, an infinity or a finite value. A finite value is kept as an
  exact rational that stands for the double nearest to it: rounding to 53 bits is not
  modelled, sums of finite values are exact and stay finite, and \<open>-0\<close> is \<open>0\<close>.
\<close>

datatype jsnum = NaN | NegInf | Fin rat | PosInf

fun isNaN :: "jsnum \<Rightarrow> bool" where
  "isNaN NaN = True"
| "isNaN _ = False"

text \<open>\<open>x <= 0\<close>; every comparison with NaN is false.\<close>

fun le_zero :: "jsnum \<Rightarrow> bool" where
  "le_zero NaN = False"
| "le_zero NegInf = True"
| "le_zero (Fin r) = (r \<le> 0)"
| "le_zero PosInf = False"

text \<open>The \<open>+\<close> of two numbers.\<close>

fun js_add :: "jsnum \<Rightarrow> jsnum \<Rightarrow> jsnum" where
  "js_add NaN _ = NaN"
| "js_add _ NaN = NaN"
| "js_add PosInf NegInf = NaN"
| "js_add NegInf PosInf = NaN"
| "js_add PosInf _ = PosInf"
| "js_add _ PosInf = PosInf"
| "js_add NegInf _ = NegInf"
| "js_add _ NegInf = NegInf"
| "js_add (Fin a) (Fin b) = Fin (a + b)"

subsection \<open>Strings\<close>

text \<open>
  A string is the list of its code units, here the units below 256. Among them the white
  space and line terminators of the language are tab, line feed, vertical tab, form feed,
  carriage return, space and the no-break space.
\<close>

definition isWhiteSpace :: "char \<Rightarrow> bool" where
  "isWhiteSpace c = (of_char c \<in> {9, 10, 11, 12, 13, 32, 160 :: nat})"

definition trimStart :: "string \<Rightarrow> string" where
  "trimStart s = dropWhile isWhiteSpace s"

definition trim :: "string \<Rightarrow> string" where
  "trim s = rev (dropWhile isWhiteSpace (rev (dropWhile isWhiteSpace s)))"

definition isDigit :: "char \<Rightarrow> bool" where
  "isDigit c = (48 \<le> (of_char c :: nat) \<and> (of_char c :: nat) \<le> 57)"

definition digitVal :: "char \<Rightarrow> nat" where
  "digitVal c = of_char c - 48"

definition digitsVal :: "string \<Rightarrow> nat" where
  "digitsVal ds = foldl (\<lambda>n c. 10 * n + digitVal c) 0 ds"

definition digitChar :: "nat \<Rightarrow> char" where
  "digitChar n = char_of (48 + n mod 10)"

definition pad2 :: "nat \<Rightarrow> string" where
  "pad2 n = [digitChar (n div 10), digitChar n]"

definition pad4 :: "nat \<Rightarrow> string" where
  "pad4 n = [digitChar (n div 1000), digitChar (n div 100), digitChar (n div 10), digitChar n]"

definition pad6 :: "nat \<Rightarrow> string" where
  "pad6 n = [digitChar (n div 100000), digitChar (n div 10000)] @ pad4 n"

subsection \<open>parseFloat\<close>

text \<open>
  \<open>parseFloat\<close> skips leading white space and reads the longest prefix that is a decimal
  literal: an optional sign, then \<open>Infinity\<close>, or digits with an optional fraction and an
  optional exponent. What follows the literal is ignored; with no literal the result is
  NaN.
\<close>

definition scale10 :: "rat \<Rightarrow> int \<Rightarrow> rat" where
  "scale10 m e = (if 0 \<le> e then m * 10 ^ nat e else m / 10 ^ nat (- e))"

definition exponentPart :: "string \<Rightarrow> int" where
  "exponentPart s =
     (case s of
        [] \<Rightarrow> 0
      | c # r \<Rightarrow>
          if c = CHR ''e'' \<or> c = CHR ''E'' then
            (case r of
               [] \<Rightarrow> 0
             | d # r' \<Rightarrow>
                 if d = CHR ''-'' then
                   (if takeWhile isDigit r' = [] then 0 else - int (digitsVal (takeWhile isDigit r')))
                 else if d = CHR ''+'' then int (digitsVal (takeWhile isDigit r'))
                 else int (digitsVal (takeWhile isDigit r)))
          else 0)"

text \<open>
  The number value of a non-negative decimal: rounding to nearest gives infinity from
  \<open>2^1024 - 2^970\<close> on, the midpoint above the largest double, and 0 up to \<open>2^-1075\<close>, half the
  least positive double. In between the exact value is kept.
\<close>

definition numberValue :: "rat \<Rightarrow> jsnum" where
  "numberValue x =
     (if 2 ^ 1024 - 2 ^ 970 \<le> x then PosInf
      else if x \<le> 1 / 2 ^ 1075 then Fin 0
      else Fin x)"

definition unsignedLiteral :: "string \<Rightarrow> jsnum" where
  "unsignedLiteral u =
     (if take 8 u = ''Infinity'' then PosInf
      else
        let ip = takeWhile isDigit u;
            r1 = dropWhile isDigit u;
            hasDot = (r1 \<noteq> [] \<and> hd r1 = CHR ''.'');
            fp = (if hasDot then takeWhile isDigit (tl r1) else []);
            r2 = (if hasDot then dropWhile isDigit (tl r1) else r1)
        in if ip = [] \<and> fp = [] then NaN
           else numberValue
                  (scale10 (of_nat (digitsVal (ip @ fp))) (exponentPart r2 - int (length fp))))"

fun negate :: "jsnum \<Rightarrow> jsnum" where
  "negate NaN = NaN"
| "negate NegInf = PosInf"
| "negate (Fin r) = Fin (- r)"
| "negate PosInf = NegInf"

definition parseFloat :: "string \<Rightarrow> jsnum" where
  "parseFloat s =
     (case trimStart s of
        [] \<Rightarrow> NaN
      | c # r \<Rightarrow>
          if c = CHR ''-'' then negate (unsignedLiteral r)
          else if c = CHR ''+'' then unsignedLiteral r
          else unsignedLiteral (c # r))"

subsection \<open>Dates\<close>

text \<open>
  A time value is a number of milliseconds since 1970-01-01T00:00:00Z. Local time is UTC
  shifted by a constant offset \<open>tz\<close>, in minutes east of Greenwich; daylight saving is not
  modelled. A \<open>Date\<close> object holds a time value or NaN (an invalid date), here \<open>None\<close>.
\<close>

definition msPerDay :: int where
  "msPerDay = 86400000"

definition Day :: "int \<Rightarrow> int" where
  "Day t = t div msPerDay"

definition TimeWithinDay :: "int \<Rightarrow> int" where
  "TimeWithinDay t = t mod msPerDay"

definition LocalTime :: "int \<Rightarrow> int \<Rightarrow> int" where
  "LocalTime tz t = t + tz * 60000"

definition UTC :: "int \<Rightarrow> int \<Rightarrow> int" where
  "UTC tz t = t - tz * 60000"

definition TimeClip :: "int \<Rightarrow> int option" where
  "TimeClip t = (if \<bar>t\<bar> \<le> 8640000000000000 then Some t else None)"

text \<open>Day number of a proleptic Gregorian date, month counted from 1.\<close>

definition daysFromCivil :: "int \<Rightarrow> int \<Rightarrow> int \<Rightarrow> int" where
  "daysFromCivil y m d =
     (let y' = (if m \<le> 2 then y - 1 else y);
          era = y' div 400;
          yoe = y' - era * 400;
          doy = (153 * (if m > 2 then m - 3 else m + 9) + 2) div 5 + d - 1;
          doe = yoe * 365 + yoe div 4 - yoe div 100 + doy
      in era * 146097 + doe - 719468)"

text \<open>Year, month (from 1) and day of the month of a day number.\<close>

definition civilFromDays :: "int \<Rightarrow> int \<times> int \<times> int" where
  "civilFromDays z =
     (let z' = z + 719468;
          era = z' div 146097;
          doe = z' - era * 146097;
          yoe = (doe - doe div 1460 + doe div 36524 - doe div 146096) div 365;
          doy = doe - (365 * yoe + yoe div 4 - yoe div 100);
          mp = (5 * doy + 2) div 153;
          d = doy - (153 * mp + 2) div 5 + 1;
          m = (if mp < 10 then mp + 3 else mp - 9)
      in (yoe + era * 400 + (if m \<le> 2 then 1 else 0), m, d))"

definition YearFromTime :: "int \<Rightarrow> int" where
  "YearFromTime t = fst (civilFromDays (Day t))"

text \<open>Months count from 0, as in the language.\<close>

definition MonthFromTime :: "int \<Rightarrow> int" where
  "MonthFromTime t = fst (snd (civilFromDays (Day t))) - 1"

definition DateFromTime :: "int \<Rightarrow> int" where
  "DateFromTime t = snd (snd (civilFromDays (Day t)))"

text \<open>Sunday is 0; 1970-01-01 was a Thursday.\<close>

definition WeekDay :: "int \<Rightarrow> int" where
  "WeekDay t = (Day t + 4) mod 7"

definition MakeDay :: "int \<Rightarrow> int \<Rightarrow> int \<Rightarrow> int" where
  "MakeDay year month dt = daysFromCivil (year + month div 12) (month mod 12 + 1) 1 + dt - 1"

definition MakeDate :: "int \<Rightarrow> int \<Rightarrow> int" where
  "MakeDate day time = day * msPerDay + time"

text \<open>The local getters of a valid date.\<close>

definition getFullYear :: "int \<Rightarrow> int \<Rightarrow> int" where
  "getFullYear tz t = YearFromTime (LocalTime tz t)"

definition getMonth :: "int \<Rightarrow> int \<Rightarrow> int" where
  "getMonth tz t = MonthFromTime (LocalTime tz t)"

definition getDate :: "int \<Rightarrow> int \<Rightarrow> int" where
  "getDate tz t = DateFromTime (LocalTime tz t)"

definition getDay :: "int \<Rightarrow> int \<Rightarrow> int" where
  "getDay tz t = WeekDay (LocalTime tz t)"

text \<open>\<open>setDate(dt)\<close> on a valid date: the local day of the month changes, the local time of day stays.\<close>

definition setDate :: "int \<Rightarrow> int \<Rightarrow> int \<Rightarrow> int option" where
  "setDate tz t dt =
     (let lt = LocalTime tz t
      in TimeClip (UTC tz (MakeDate (MakeDay (YearFromTime lt) (MonthFromTime lt) dt)
                                    (TimeWithinDay lt))))"

text \<open>\<open>new Date(year, month, day)\<close>: local midnight; a year from 0 to 99 means 1900 + year.\<close>

definition newDateYMD :: "int \<Rightarrow> int \<Rightarrow> int \<Rightarrow> int \<Rightarrow> int option" where
  "newDateYMD tz year month dt =
     (let yr = (if 0 \<le> year \<and> year \<le> 99 then 1900 + year else year)
      in TimeClip (UTC tz (MakeDate (MakeDay yr month dt) 0)))"

text \<open>
  The date part of \<open>toISOString()\<close>, which renders the UTC fields: four digits for the
  years 0 to 9999, a sign and six digits otherwise.
\<close>

definition isoYear :: "int \<Rightarrow> string" where
  "isoYear y =
     (if 0 \<le> y \<and> y \<le> 9999 then pad4 (nat y)
      else if y < 0 then CHR ''-'' # pad6 (nat (- y))
      else CHR ''+'' # pad6 (nat y))"

definition isoDate :: "int \<Rightarrow> string" where
  "isoDate t =
     isoYear (YearFromTime t) @ ''-'' @ pad2 (nat (MonthFromTime t + 1)) @ ''-''
       @ pad2 (nat (DateFromTime t))"

definition daysInMonth :: "int \<Rightarrow> int \<Rightarrow> int" where
  "daysInMonth y m = daysFromCivil (y + m div 12) (m mod 12 + 1) 1 - daysFromCivil y m 1"

text \<open>
  \<open>new Date(string)\<close> for the date-only forms \<open>YYYY-MM-DD\<close>, \<open>+YYYYYY-MM-DD\<close> and
  \<open>-YYYYYY-MM-DD\<close>, which denote midnight UTC of that day. These are the strings
  \<open>getToday\<close> writes. Any other string is an invalid date in this model; what an engine
  makes of the other formats it accepts is not modelled.
\<close>

definition dateOfFields :: "int \<Rightarrow> string \<Rightarrow> string \<Rightarrow> int option" where
  "dateOfFields y ms ds =
     (let m = int (digitsVal ms); d = int (digitsVal ds)
      in if list_all isDigit (ms @ ds) \<and> 1 \<le> m \<and> m \<le> 12 \<and> 1 \<le> d \<and> d \<le> daysInMonth y m
         then TimeClip (daysFromCivil y m d * msPerDay)
         else None)"

definition parseDate :: "string \<Rightarrow> int option" where
  "parseDate s =
     (if length s = 10 \<and> s ! 4 = CHR ''-'' \<and> s ! 7 = CHR ''-'' \<and> list_all isDigit (take 4 s)
      then dateOfFields (int (digitsVal (take 4 s))) (take 2 (drop 5 s)) (drop 8 s)
      else if length s = 13 \<and> (s ! 0 = CHR ''+'' \<or> s ! 0 = CHR ''-'') \<and> s ! 7 = CHR ''-''
              \<and> s ! 10 = CHR ''-'' \<and> list_all isDigit (take 6 (drop 1 s))
              \<and> \<not> (s ! 0 = CHR ''-'' \<and> digitsVal (take 6 (drop 1 s)) = 0)
      then dateOfFields
             ((if s ! 0 = CHR ''-'' then - 1 else 1) * int (digitsVal (take 6 (drop 1 s))))
             (take 2 (drop 8 s)) (drop 11 s)
      else None)"

text \<open>\<open>a >= b\<close> and \<open>a <= b\<close> on dates compare the time values; with an invalid date both are false.\<close>

fun date_ge :: "int option \<Rightarrow> int option \<Rightarrow> bool" where
  "date_ge (Some a) (Some b) = (a \<ge> b)"
| "date_ge _ _ = False"

fun date_le :: "int option \<Rightarrow> int option \<Rightarrow> bool" where
  "date_le (Some a) (Some b) = (a \<le> b)"
| "date_le _ _ = False"

section \<open>The store\<close>

text \<open>
  One row of the table \<open>expenses\<close>, as the screen reads it: \<open>item.id\<close>, \<open>e.amount\<close>,
  \<open>e.category\<close>, \<open>item.note\<close> (\<open>None\<close> is SQL NULL) and \<open>e.date\<close>.
\<close>

record expense =
  e_id :: int
  e_amount :: jsnum
  e_category :: string
  e_note :: "string option"
  e_date :: string

text \<open>
  The database holds at most the one table \<open>expenses\<close>. A table is its declared columns
  (name and NOT NULL constraint; no column has a default value), its rows in insertion
  order and the counter of AUTOINCREMENT. The column \<open>id\<close>, where declared, is the integer
  primary key. The column list decides which statements the engine accepts; a statement
  that names a column the table does not have fails and changes nothing.
\<close>

datatype sqlerror = NoSuchTable | NoSuchColumn string | NotNullFailed string

record column =
  cname :: string
  notnull :: bool

record table =
  columns :: "column list"
  rows :: "expense list"
  seq :: int

type_synonym database = "table option"

text \<open>
  App.js, \<open>onInit\<close>: \<open>CREATE TABLE IF NOT EXISTS expenses (id INTEGER PRIMARY KEY
  AUTOINCREMENT, title TEXT NOT NULL, amount REAL NOT NULL, date TEXT NOT NULL)\<close>.
\<close>

definition onInit :: "database \<Rightarrow> database" where
  "onInit d =
     (case d of
        None \<Rightarrow>
          Some \<lparr>columns =
                  [\<lparr>cname = ''id'', notnull = False\<rparr>, \<lparr>cname = ''title'', notnull = True\<rparr>,
                   \<lparr>cname = ''amount'', notnull = True\<rparr>, \<lparr>cname = ''date'', notnull = True\<rparr>],
                rows = [], seq = 0\<rparr>
      | Some t \<Rightarrow> Some t)"

text \<open>The first of the named columns that the table does not have.\<close>

definition missingColumn :: "table \<Rightarrow> string list \<Rightarrow> string option" where
  "missingColumn t cs = find (\<lambda>c. c \<notin> set (map cname (columns t))) cs"

text \<open>
  The first NOT NULL column that an \<open>INSERT\<close> into \<open>(amount, category, note, date)\<close> leaves
  NULL: one the statement does not name (the primary key is filled in by the engine), or
  \<open>note\<close> when the note is null.
\<close>

definition insertNullColumn :: "table \<Rightarrow> string option \<Rightarrow> string option" where
  "insertNullColumn t nt =
     find (\<lambda>c. if c = ''note'' then nt = None
               else c \<noteq> ''id'' \<and> c \<noteq> ''amount'' \<and> c \<noteq> ''category'' \<and> c \<noteq> ''date'')
          (map cname (filter notnull (columns t)))"

text \<open>AUTOINCREMENT: one more than the largest id the table has ever held.\<close>

definition nextId :: "table \<Rightarrow> int" where
  "nextId t = foldr max (map e_id (rows t)) (seq t) + 1"

text \<open>\<open>INSERT INTO expenses (amount, category, note, date) VALUES (?, ?, ?, ?)\<close>\<close>

definition runInsert ::
  "database \<Rightarrow> jsnum \<Rightarrow> string \<Rightarrow> string option \<Rightarrow> string \<Rightarrow> sqlerror + database" where
  "runInsert d a c n dt =
     (case d of
        None \<Rightarrow> Inl NoSuchTable
      | Some t \<Rightarrow>
          (case missingColumn t [''amount'', ''category'', ''note'', ''date''] of
             Some x \<Rightarrow> Inl (NoSuchColumn x)
           | None \<Rightarrow>
               (case insertNullColumn t n of
                  Some x \<Rightarrow> Inl (NotNullFailed x)
                | None \<Rightarrow>
                    Inr (Some (t\<lparr>rows := rows t @
                                   [\<lparr>e_id = nextId t, e_amount = a, e_category = c, e_note = n,
                                     e_date = dt\<rparr>],
                                 seq := nextId t\<rparr>)))))"

text \<open>\<open>UPDATE expenses SET amount = ?, category = ?, note = ? WHERE id = ?\<close>\<close>

definition runUpdate ::
  "database \<Rightarrow> jsnum \<Rightarrow> string \<Rightarrow> string option \<Rightarrow> int \<Rightarrow> sqlerror + database" where
  "runUpdate d a c n i =
     (case d of
        None \<Rightarrow> Inl NoSuchTable
      | Some t \<Rightarrow>
          (case missingColumn t [''amount'', ''category'', ''note'', ''id''] of
             Some x \<Rightarrow> Inl (NoSuchColumn x)
           | None \<Rightarrow>
               if n = None \<and> ''note'' \<in> set (map cname (filter notnull (columns t)))
                  \<and> i \<in> set (map e_id (rows t))
               then Inl (NotNullFailed ''note'')
               else Inr (Some (t\<lparr>rows :=
                                   map (\<lambda>r. if e_id r = i
                                            then r\<lparr>e_amount := a, e_category := c, e_note := n\<rparr>
                                            else r)
                                       (rows t)\<rparr>))))"

text \<open>\<open>DELETE FROM expenses WHERE id = ?\<close>\<close>

definition runDelete :: "database \<Rightarrow> int \<Rightarrow> sqlerror + database" where
  "runDelete d i =
     (case d of
        None \<Rightarrow> Inl NoSuchTable
      | Some t \<Rightarrow>
          (case missingColumn t [''id''] of
             Some x \<Rightarrow> Inl (NoSuchColumn x)
           | None \<Rightarrow> Inr (Some (t\<lparr>rows := filter (\<lambda>r. e_id r \<noteq> i) (rows t)\<rparr>))))"

text \<open>\<open>SELECT * FROM expenses ORDER BY id DESC\<close>\<close>

definition getAll :: "database \<Rightarrow> sqlerror + expense list" where
  "getAll d =
     (case d of
        None \<Rightarrow> Inl NoSuchTable
      | Some t \<Rightarrow>
          (case missingColumn t [''id''] of
             Some x \<Rightarrow> Inl (NoSuchColumn x)
           | None \<Rightarrow> Inr (rev (sort_key e_id (rows t)))))"

section \<open>The expense screen\<close>

text \<open>
  The state of the component: the database handle, the hooks \<open>expenses\<close>, \<open>filter\<close>,
  \<open>amount\<close>, \<open>category\<close>, \<open>note\<close> and \<open>editingId\<close>, and a log of the calls made to the
  store, with their parameters.
\<close>

datatype call =
    RunInsert jsnum string "string option" string
  | RunUpdate jsnum string "string option" int
  | RunDelete int
  | GetAll


record screen =
  db :: database
  calls :: "call list"
  expenses :: "expense list"
  filter' :: string
  amount :: string
  category :: string
  note' :: string
  editingId :: "int option"

text \<open>
  How a handler ends: it returns before touching the store, it runs to its end, or the
  awaited store call rejects and the rest of the handler is skipped.
\<close>

datatype outcome = Aborted | Completed | Rejected sqlerror

text \<open>\<open>new Date().toISOString().split('T')[0]\<close>\<close>

definition getToday :: "int \<Rightarrow> string" where
  "getToday now = isoDate now"

text \<open>
  \<open>loadExpenses\<close> is called without \<open>await\<close>: when its query rejects, the list stays as it
  was and the caller does not see the rejection.
\<close>

definition loadExpenses :: "screen \<Rightarrow> screen" where
  "loadExpenses st =
     (case getAll (db st) of
        Inl e \<Rightarrow> st\<lparr>calls := calls st @ [GetAll]\<rparr>
      | Inr rs \<Rightarrow> st\<lparr>calls := calls st @ [GetAll], expenses := rs\<rparr>)"

definition resetForm :: "screen \<Rightarrow> screen" where
  "resetForm st = st\<lparr>amount := [], category := [], note' := [], editingId := None\<rparr>"

definition saveExpense :: "int \<Rightarrow> screen \<Rightarrow> outcome \<times> screen" where
  "saveExpense now st =
     (let amountNumber = parseFloat (amount st)
      in if isNaN amountNumber \<or> le_zero amountNumber then (Aborted, st)
         else if trim (category st) = [] then (Aborted, st)
         else
           let trimmedCategory = trim (category st);
               trimmedNote = (if trim (note' st) = [] then None else Some (trim (note' st)))
           in (case editingId st of
                 None \<Rightarrow>
                   let today = getToday now;
                       st1 = st\<lparr>calls := calls st @
                                 [RunInsert amountNumber trimmedCategory trimmedNote today]\<rparr>
                   in (case runInsert (db st) amountNumber trimmedCategory trimmedNote today of
                         Inl e \<Rightarrow> (Rejected e, st1)
                       | Inr d \<Rightarrow> (Completed, loadExpenses (resetForm (st1\<lparr>db := d\<rparr>))))
               | Some i \<Rightarrow>
                   let st1 = st\<lparr>calls := calls st @
                                 [RunUpdate amountNumber trimmedCategory trimmedNote i]\<rparr>
                   in (case runUpdate (db st) amountNumber trimmedCategory trimmedNote i of
                         Inl e \<Rightarrow> (Rejected e, st1)
                       | Inr d \<Rightarrow> (Completed, loadExpenses (resetForm (st1\<lparr>db := d\<rparr>))))))"

definition deleteExpense :: "screen \<Rightarrow> int \<Rightarrow> outcome \<times> screen" where
  "deleteExpense st i =
     (let st1 = st\<lparr>calls := calls st @ [RunDelete i]\<rparr>
      in (case runDelete (db st) i of
            Inl e \<Rightarrow> (Rejected e, st1)
          | Inr d \<Rightarrow> (Completed, loadExpenses (st1\<lparr>db := d\<rparr>))))"

definition startEditing :: "screen \<Rightarrow> expense \<Rightarrow> string \<Rightarrow> screen" where
  \<comment> \<open>\<open>amountText\<close> stands for \<open>item.amount.toString()\<close>, which is not modelled\<close>
  "startEditing st item amountText =
     st\<lparr>editingId := Some (e_id item), amount := amountText, category := e_category item,
        note' := (case e_note item of None \<Rightarrow> [] | Some n \<Rightarrow> n)\<rparr>"

subsection \<open>The filtered view\<close>

definition getFilteredExpenses :: "int \<Rightarrow> int \<Rightarrow> screen \<Rightarrow> expense list" where
  "getFilteredExpenses tz now st =
     (let today = Some now;
          startOfWeek = setDate tz now (getDate tz now - getDay tz now);
          startOfMonth = newDateYMD tz (getFullYear tz now) (getMonth tz now) 1
      in if filter' st = ''week'' then
           filter (\<lambda>e. let d = parseDate (e_date e) in date_ge d startOfWeek \<and> date_le d today)
                  (expenses st)
         else if filter' st = ''month'' then
           filter (\<lambda>e. let d = parseDate (e_date e) in date_ge d startOfMonth \<and> date_le d today)
                  (expenses st)
         else expenses st)"

definition getTotalSpending :: "int \<Rightarrow> int \<Rightarrow> screen \<Rightarrow> jsnum" where
  "getTotalSpending tz now st =
     foldl (\<lambda>sum e. js_add sum (e_amount e)) (Fin 0) (getFilteredExpenses tz now st)"

subsection \<open>Totals by category\<close>

text \<open>
  \<open>totals\<close> starts as the object literal \<open>{}\<close>: it has no property of its own, and it
  inherits those of \<open>Object.prototype\<close>, so that reading \<open>totals[k]\<close> finds an inherited
  function for a key such as \<open>constructor\<close> and the prototype itself for \<open>__proto__\<close>.
  The properties the loop creates hold numbers or strings. A string is kept as the list
  of the pieces it was concatenated from; the text of a built-in function, of
  \<open>Object.prototype\<close> and the decimal rendering of a number are not spelled out (none of
  them is empty).
\<close>

datatype piece = FunctionText string | ObjectText | NumberText jsnum

datatype stored = Num jsnum | Text "piece list"

datatype jsval = Undefined | Own stored | ProtoFunction string | ObjectPrototype

text \<open>The own properties of an object, in the order of their creation.\<close>

type_synonym object = "(string \<times> stored) list"

definition prototypeFunctions :: "string list" where
  "prototypeFunctions =
     [''constructor'', ''hasOwnProperty'', ''isPrototypeOf'', ''propertyIsEnumerable'',
      ''toLocaleString'', ''toString'', ''valueOf'', ''__defineGetter__'', ''__defineSetter__'',
      ''__lookupGetter__'', ''__lookupSetter__'']"

definition getProp :: "object \<Rightarrow> string \<Rightarrow> jsval" where
  "getProp ob k =
     (case map_of ob k of
        Some v \<Rightarrow> Own v
      | None \<Rightarrow>
          if k = ''__proto__'' then ObjectPrototype
          else if k \<in> set prototypeFunctions then ProtoFunction k
          else Undefined)"

text \<open>
  Assigning a number or a string to \<open>ob[k]\<close>: an own property is overwritten; the inherited
  setter of \<open>__proto__\<close> ignores a value that is not an object; any other key becomes a new
  own property.
\<close>

definition setProp :: "object \<Rightarrow> string \<Rightarrow> stored \<Rightarrow> object" where
  "setProp ob k v =
     (if k \<in> set (map fst ob) then map (\<lambda>p. if fst p = k then (k, v) else p) ob
      else if k = ''__proto__'' then ob
      else ob @ [(k, v)])"

fun truthy :: "jsval \<Rightarrow> bool" where
  "truthy Undefined = False"
| "truthy (Own (Num n)) = (n \<noteq> NaN \<and> n \<noteq> Fin 0)"
| "truthy (Own (Text ps)) = (ps \<noteq> [])"
| "truthy (ProtoFunction f) = True"
| "truthy ObjectPrototype = True"

text \<open>\<open>v + n\<close> for a number \<open>n\<close>: addition of numbers, concatenation once \<open>v\<close> is not a number.\<close>

fun js_plus :: "jsval \<Rightarrow> jsnum \<Rightarrow> stored" where
  "js_plus Undefined n = Num NaN"
| "js_plus (Own (Num a)) n = Num (js_add a n)"
| "js_plus (Own (Text ps)) n = Text (ps @ [NumberText n])"
| "js_plus (ProtoFunction f) n = Text [FunctionText f, NumberText n]"
| "js_plus ObjectPrototype n = Text [ObjectText, NumberText n]"

text \<open>The body of the \<open>forEach\<close> callback.\<close>

definition addToTotals :: "object \<Rightarrow> expense \<Rightarrow> object" where
  "addToTotals totals e =
     (let totals1 = (if \<not> truthy (getProp totals (e_category e))
                     then setProp totals (e_category e) (Num (Fin 0)) else totals)
      in setProp totals1 (e_category e) (js_plus (getProp totals1 (e_category e)) (e_amount e)))"

definition getTotalsByCategory :: "int \<Rightarrow> int \<Rightarrow> screen \<Rightarrow> object" where
  "getTotalsByCategory tz now st = foldl addToTotals [] (getFilteredExpenses tz now st)"

subsection \<open>Lists on which the totals are numbers\<close>

text \<open>
  Used to state what the two totals compute on ordinary input: a key that
  \<open>Object.prototype\<close> does not define, amounts that are finite, and an object whose own
  properties are distinct ordinary keys holding finite numbers.
\<close>

definition ordinaryKey :: "string \<Rightarrow> bool" where
  "ordinaryKey k = (k \<noteq> ''__proto__'' \<and> k \<notin> set prototypeFunctions)"

definition finiteAmounts :: "expense list \<Rightarrow> bool" where
  "finiteAmounts es = list_all (\<lambda>e. case e_amount e of Fin r \<Rightarrow> True | _ \<Rightarrow> False) es"

definition ordinaryCategories :: "expense list \<Rightarrow> bool" where
  "ordinaryCategories es = list_all (\<lambda>e. ordinaryKey (e_category e)) es"

definition amountOf :: "expense \<Rightarrow> rat" where
  "amountOf e = (case e_amount e of Fin r \<Rightarrow> r | _ \<Rightarrow> 0)"

definition storedNumber :: "stored \<Rightarrow> rat" where
  "storedNumber v = (case v of Num (Fin r) \<Rightarrow> r | _ \<Rightarrow> 0)"

definition numericTotals :: "object \<Rightarrow> bool" where
  "numericTotals ob =
     (distinct (map fst ob)
      \<and> list_all (\<lambda>p. ordinaryKey (fst p) \<and> snd p = Num (Fin (storedNumber (snd p)))) ob)"

subsection \<open>Starting points\<close>

text \<open>The component as first rendered: the initial values of its hooks, and no call made yet.\<close>

definition initialScreen :: "database \<Rightarrow> screen" where
  "initialScreen d =
     \<lparr>db = d, calls = [], expenses = [], filter' = ''all'', amount = [], category = [],
      note' = [], editingId = None\<rparr>"

text \<open>
  A table with the columns that the statements of the screen name (\<open>id\<close>, \<open>amount\<close>,
  \<open>category\<close>, \<open>note\<close>, \<open>date\<close>), such as an earlier installation may have left in the
  database file; \<open>onInit\<close> keeps a table that exists.
\<close>

definition expensesTable :: "expense list \<Rightarrow> int \<Rightarrow> table" where
  "expensesTable rs n =
     \<lparr>columns =
        [\<lparr>cname = ''id'', notnull = False\<rparr>, \<lparr>cname = ''amount'', notnull = True\<rparr>,
         \<lparr>cname = ''category'', notnull = True\<rparr>, \<lparr>cname = ''note'', notnull = False\<rparr>,
         \<lparr>cname = ''date'', notnull = True\<rparr>],
      rows = rs, seq = n\<rparr>"

text \<open>Three rows of such a table, and the screen after its first load of them.\<close>

definition sampleRows :: "expense list" where
  "sampleRows =
     [\<lparr>e_id = 1, e_amount = Fin 20, e_category = ''Books'', e_note = None,
        e_date = ''2024-01-06''\<rparr>,
      \<lparr>e_id = 2, e_amount = Fin 5, e_category = ''Food'', e_note = None,
        e_date = ''2024-01-07''\<rparr>,
      \<lparr>e_id = 3, e_amount = Fin 10, e_category = ''Food'', e_note = Some ''lunch'',
        e_date = ''2024-01-08''\<rparr>]"

definition sampleScreen :: screen where
  "sampleScreen = loadExpenses (initialScreen (Some (expensesTable sampleRows 3)))"

section \<open>Properties\<close>

subsection \<open>Auxiliary facts\<close>

lemmas parseFloat_unfold =
  parseFloat_def trimStart_def isWhiteSpace_def unsignedLiteral_def isDigit_def Let_def
  digitsVal_def digitVal_def exponentPart_def scale10_def numberValue_def

lemma parseFloat_12_5: "parseFloat ''12.5'' = Fin (25 / 2)"
  by (simp add: parseFloat_unfold)

lemma trim_Food: "trim ''Food'' = ''Food''"
  by code_simp

lemma trim_lunch: "trim ''lunch'' = ''lunch''"
  by code_simp




lemma parseFloat_underflow: "parseFloat ''1e-400'' = Fin 0"
  by (simp add: parseFloat_unfold)

lemma parseFloat_overflow: "parseFloat ''1e400'' = PosInf"
  by (simp add: parseFloat_unfold)






lemma db_loadExpenses: "db (loadExpenses s) = db s"
  by (simp add: loadExpenses_def split: sum.splits)




lemma sampleScreen_db: "db sampleScreen = Some (expensesTable sampleRows 3)"
  by (simp add: sampleScreen_def db_loadExpenses initialScreen_def)

lemma sample_ids: "map e_id (rows (expensesTable sampleRows 3)) = [1, 2, 3]"
  by (simp add: expensesTable_def sampleRows_def)

lemma sample_id_column: "''id'' \<in> set (map cname (columns (expensesTable sampleRows 3)))"
  by (simp add: expensesTable_def)




subsection \<open>Creating a record in a fresh store\<close>

text \<open>
  C1. The claim: in a store initialised by \<open>onInit\<close>, a create with amount \<open>12.5\<close>,
  category \<open>Food\<close> and note \<open>lunch\<close>, followed by a load, yields exactly one record. The
  code does otherwise: the table that \<open>onInit\<close> creates has the columns \<open>id\<close>, \<open>title\<close>,
  \<open>amount\<close> and \<open>date\<close>, the \<open>INSERT\<close> of \<open>saveExpense\<close> names \<open>category\<close> and \<open>note\<close>, the
  statement is rejected at any instant, the form is not cleared, and the loaded list is
  empty.
\<close>

theorem fresh_store_rejects_create:
  "saveExpense now
     ((initialScreen (onInit None))\<lparr>amount := ''12.5'', category := ''Food'', note' := ''lunch''\<rparr>)
     = (Rejected (NoSuchColumn ''category''),
        (initialScreen (onInit None))
          \<lparr>amount := ''12.5'', category := ''Food'', note' := ''lunch'',
           calls := [RunInsert (Fin (25 / 2)) ''Food'' (Some ''lunch'') (getToday now)]\<rparr>)
   \<and> expenses (loadExpenses (snd (saveExpense now
        ((initialScreen (onInit None))
           \<lparr>amount := ''12.5'', category := ''Food'', note' := ''lunch''\<rparr>)))) = []"
  by (simp add: saveExpense_def initialScreen_def onInit_def parseFloat_12_5 trim_Food trim_lunch
      runInsert_def missingColumn_def loadExpenses_def getAll_def Let_def)

subsection \<open>Validation and store calls of a submit\<close>



subsection \<open>Editing\<close>



subsection \<open>Deleting\<close>

text \<open>
  C8. On a table that has the column \<open>id\<close> (the table of \<open>onInit\<close> has it),
  \<open>deleteExpense\<close> runs to its end for every id: the rows left are those with another id, so
  that nothing changes when no row has the id; deleting the same id again runs to its end
  too and leaves the database and the loaded list as the first deletion left them.
\<close>

theorem delete_idempotent:
  assumes tb: "db st = Some t"
    and idc: "''id'' \<in> set (map cname (columns t))"
  shows "\<exists>st1 st2.
           deleteExpense st i = (Completed, st1)
         \<and> db st1 = Some (t\<lparr>rows := filter (\<lambda>r. e_id r \<noteq> i) (rows t)\<rparr>)
         \<and> (i \<notin> set (map e_id (rows t)) \<longrightarrow> db st1 = db st)
         \<and> deleteExpense st1 i = (Completed, st2)
         \<and> db st2 = db st1 \<and> expenses st2 = expenses st1"
proof -
  from idc have mc: "missingColumn t [''id''] = None"
    by (simp add: missingColumn_def)
  have same: "i \<notin> set (map e_id (rows t)) \<Longrightarrow> filter (\<lambda>r. e_id r \<noteq> i) (rows t) = rows t"
    by (induction "rows t") (auto simp add: filter_id_conv)
  show ?thesis
    using tb mc same
    by (auto simp add: deleteExpense_def runDelete_def loadExpenses_def getAll_def Let_def
        missingColumn_def)
qed

text \<open>Deleting id 3, which the sample table holds, twice; and id 7, which it does not hold.\<close>

theorem delete_idempotent_witness:
  "db sampleScreen = Some (expensesTable sampleRows 3)
   \<and> ''id'' \<in> set (map cname (columns (expensesTable sampleRows 3)))
   \<and> (\<exists>st1 st2.
         deleteExpense sampleScreen 3 = (Completed, st1)
       \<and> map e_id (expenses st1) = [2, 1]
       \<and> deleteExpense st1 3 = (Completed, st2)
       \<and> db st2 = db st1 \<and> expenses st2 = expenses st1)
   \<and> 7 \<notin> set (map e_id (rows (expensesTable sampleRows 3)))
   \<and> (\<exists>st1. deleteExpense sampleScreen 7 = (Completed, st1) \<and> db st1 = db sampleScreen)"
proof -
  have ex: "map e_id (expenses (snd (deleteExpense sampleScreen 3))) = [2, 1]"
    by code_simp
  have no: "7 \<notin> set (map e_id (rows (expensesTable sampleRows 3)))"
    by (simp add: sample_ids)
  from delete_idempotent [OF sampleScreen_db sample_id_column, of 3] ex
  have a: "\<exists>st1 st2.
         deleteExpense sampleScreen 3 = (Completed, st1)
       \<and> map e_id (expenses st1) = [2, 1]
       \<and> deleteExpense st1 3 = (Completed, st2)
       \<and> db st2 = db st1 \<and> expenses st2 = expenses st1"
    by fastforce
  from delete_idempotent [OF sampleScreen_db sample_id_column, of 7] no
  have b: "\<exists>st1. deleteExpense sampleScreen 7 = (Completed, st1) \<and> db st1 = db sampleScreen"
    by blast
  from a b no sampleScreen_db sample_id_column show ?thesis by blast
qed

subsection \<open>Filter modes other than week and month\<close>

text \<open>
  C10. For every value of the filter mode other than \<open>week\<close> and \<open>month\<close>,
  \<open>getFilteredExpenses\<close> is the in-memory list itself, in the same order.
\<close>

theorem other_modes_unfiltered:
  "filter' st \<noteq> ''week'' \<Longrightarrow> filter' st \<noteq> ''month'' \<Longrightarrow> getFilteredExpenses tz now st = expenses st"
  by (simp add: getFilteredExpenses_def Let_def)

text \<open>The mode \<open>year\<close>, which no button sets, on a list of two records.\<close>

theorem other_modes_unfiltered_witness:
  "''year'' \<noteq> ''week'' \<and> ''year'' \<noteq> ''month''
   \<and> getFilteredExpenses 0 1704715200000
        ((initialScreen None)
           \<lparr>filter' := ''year'',
            expenses := [\<lparr>e_id = 2, e_amount = Fin 5, e_category = ''Food'', e_note = None,
                           e_date = ''2024-01-08''\<rparr>,
                         \<lparr>e_id = 1, e_amount = Fin 20, e_category = ''Books'', e_note = None,
                           e_date = ''2001-09-30''\<rparr>]\<rparr>)
     = [\<lparr>e_id = 2, e_amount = Fin 5, e_category = ''Food'', e_note = None,
          e_date = ''2024-01-08''\<rparr>,
        \<lparr>e_id = 1, e_amount = Fin 20, e_category = ''Books'', e_note = None,
          e_date = ''2001-09-30''\<rparr>]"
  using other_modes_unfiltered
    [of "(initialScreen None)
           \<lparr>filter' := ''year'',
            expenses := [\<lparr>e_id = 2, e_amount = Fin 5, e_category = ''Food'', e_note = None,
                           e_date = ''2024-01-08''\<rparr>,
                         \<lparr>e_id = 1, e_amount = Fin 20, e_category = ''Books'', e_note = None,
                           e_date = ''2001-09-30''\<rparr>]\<rparr>" 0 1704715200000]
  by (simp add: initialScreen_def)

subsection \<open>The week and month filters\<close>

text \<open>
  C2. The claim: the week starts on the most recent Sunday at local midnight, and of
  records dated today, today - 1 and start of week - 1 the week filter keeps the first
  two. The code at Monday 2024-01-08, 12:00 UTC, in a zone with no offset: \<open>startOfWeek\<close>
  is a copy of the current instant moved back by the weekday, so it is Sunday 12:00 and
  not Sunday 00:00; the record dated \<open>2024-01-07\<close> (today - 1, the Sunday) parses to
  Sunday 00:00 UTC, which is before \<open>startOfWeek\<close>; of the three sample records the filter
  keeps only the one dated today.
\<close>

theorem week_filter_excludes_week_start:
  "getToday 1704715200000 = ''2024-01-08'' \<and> getDay 0 1704715200000 = 1
   \<and> setDate 0 1704715200000 (getDate 0 1704715200000 - getDay 0 1704715200000)
       = Some 1704628800000
   \<and> parseDate ''2024-01-07'' = Some 1704585600000
   \<and> map e_date (getFilteredExpenses 0 1704715200000 (sampleScreen\<lparr>filter' := ''week''\<rparr>))
       = [''2024-01-08'']"
  by code_simp

text \<open>
  C5. The claim: a record dated today always matches \<open>week\<close> and \<open>month\<close>. The code on
  Sunday 2024-01-07 at 12:00 UTC, with no offset: \<open>startOfWeek\<close> is the current instant,
  the record dated today parses to 00:00 UTC, and the week filter drops it. The code on
  2024-02-01 at 15:00 UTC, five hours west of Greenwich (10:00 local): \<open>startOfMonth\<close>
  is local midnight, 05:00 UTC, the record dated today parses to 00:00 UTC, and the month
  filter drops it.
\<close>

theorem today_excluded_by_filters:
  "getToday 1704628800000 = ''2024-01-07'' \<and> getDay 0 1704628800000 = 0
   \<and> getFilteredExpenses 0 1704628800000
        ((initialScreen None)
           \<lparr>filter' := ''week'',
            expenses := [\<lparr>e_id = 1, e_amount = Fin 10, e_category = ''Food'', e_note = None,
                           e_date = getToday 1704628800000\<rparr>]\<rparr>) = []
   \<and> getToday 1706799600000 = ''2024-02-01'' \<and> getMonth (- 300) 1706799600000 = 1
   \<and> getDate (- 300) 1706799600000 = 1
   \<and> getFilteredExpenses (- 300) 1706799600000
        ((initialScreen None)
           \<lparr>filter' := ''month'',
            expenses := [\<lparr>e_id = 1, e_amount = Fin 10, e_category = ''Food'', e_note = None,
                           e_date = getToday 1706799600000\<rparr>]\<rparr>) = []"
  by code_simp

subsection \<open>The date of a new record\<close>

text \<open>
  C6. The claim: a create records the local calendar date. The code at 2024-01-10, 02:00
  UTC, five hours west of Greenwich, where the local date is 2024-01-09: on a table that
  accepts the \<open>INSERT\<close>, the record is dated \<open>2024-01-10\<close>, the UTC date that
  \<open>toISOString\<close> renders.
\<close>

theorem create_records_utc_date:
  "getFullYear (- 300) 1704852000000 = 2024 \<and> getMonth (- 300) 1704852000000 = 0
   \<and> getDate (- 300) 1704852000000 = 9
   \<and> fst (saveExpense 1704852000000
        ((initialScreen (Some (expensesTable [] 0)))
           \<lparr>amount := ''12.5'', category := ''Food'', note' := ''lunch''\<rparr>)) = Completed
   \<and> expenses (snd (saveExpense 1704852000000
        ((initialScreen (Some (expensesTable [] 0)))
           \<lparr>amount := ''12.5'', category := ''Food'', note' := ''lunch''\<rparr>)))
      = [\<lparr>e_id = 1, e_amount = Fin (25 / 2), e_category = ''Food'', e_note = Some ''lunch'',
           e_date = ''2024-01-10''\<rparr>]"
proof -
  have local: "getFullYear (- 300) 1704852000000 = 2024 \<and> getMonth (- 300) 1704852000000 = 0
               \<and> getDate (- 300) 1704852000000 = 9"
    by code_simp
  have utc: "getToday 1704852000000 = ''2024-01-10''"
    by code_simp
  have run: "saveExpense 1704852000000
        ((initialScreen (Some (expensesTable [] 0)))
           \<lparr>amount := ''12.5'', category := ''Food'', note' := ''lunch''\<rparr>)
      = (Completed,
         \<lparr>db = Some (expensesTable
                       [\<lparr>e_id = 1, e_amount = Fin (25 / 2), e_category = ''Food'',
                          e_note = Some ''lunch'', e_date = ''2024-01-10''\<rparr>] 1),
          calls = [RunInsert (Fin (25 / 2)) ''Food'' (Some ''lunch'') ''2024-01-10'', GetAll],
          expenses = [\<lparr>e_id = 1, e_amount = Fin (25 / 2), e_category = ''Food'',
                         e_note = Some ''lunch'', e_date = ''2024-01-10''\<rparr>],
          filter' = ''all'', amount = [], category = [], note' = [], editingId = None\<rparr>)"
    by (simp add: saveExpense_def initialScreen_def expensesTable_def parseFloat_12_5 trim_Food
        trim_lunch utc runInsert_def missingColumn_def insertNullColumn_def nextId_def
        loadExpenses_def resetForm_def getAll_def Let_def)
  from local show ?thesis
    by (simp add: run)
qed

subsection \<open>Totals\<close>

text \<open>
  On a filtered view whose categories are ordinary keys and whose amounts are finite, the
  accumulation keeps one numeric entry per category, \<open>getTotalSpending\<close> is the sum of
  the amounts and 0 on the empty view, each category that occurs is mapped to the sum of
  its amounts, no other category has an entry, and the entries add up to the total. The
  sums are the exact ones of the number model.
\<close>

lemma storedNumber_Fin: "storedNumber (Num (Fin r)) = r"
  by (simp add: storedNumber_def)

lemma map_replace_absent:
  "k \<notin> set (map fst ob) \<Longrightarrow> map (\<lambda>p. if fst p = k then (k, v) else p) ob = ob"
  by (induction ob) auto

lemma map_replace_same:
  "distinct (map fst ob) \<Longrightarrow> map_of ob k = Some v
     \<Longrightarrow> map (\<lambda>p. if fst p = k then (k, v) else p) ob = ob"
proof (induction ob)
  case Nil
  then show ?case by simp
next
  case (Cons p ob)
  show ?case
  proof (cases "fst p = k")
    case True
    with Cons.prems have "k \<notin> set (map fst ob)" and "p = (k, v)"
      by (auto simp add: prod_eq_iff)
    then show ?thesis by (simp add: map_replace_absent)
  next
    case False
    with Cons show ?thesis by simp
  qed
qed

lemma numericTotals_lookup:
  "numericTotals ob \<Longrightarrow> map_of ob k = Some v \<Longrightarrow> v = Num (Fin (storedNumber v)) \<and> ordinaryKey k"
  by (auto simp add: numericTotals_def list_all_iff dest!: map_of_SomeD)

lemma addToTotals_absent:
  assumes "map_of ob k = None" and "ordinaryKey k" and "e_category e = k" and "e_amount e = Fin r"
  shows "addToTotals ob e = ob @ [(k, Num (Fin r))]"
proof -
  from assms(1) have nk: "k \<notin> set (map fst ob)"
    by (simp add: map_of_eq_None_iff)
  from assms(1,2) have g: "getProp ob k = Undefined"
    by (simp add: getProp_def ordinaryKey_def)
  from nk assms(2) have s1: "setProp ob k (Num (Fin 0)) = ob @ [(k, Num (Fin 0))]"
    by (simp add: setProp_def ordinaryKey_def)
  from assms(1) have g1: "getProp (ob @ [(k, Num (Fin 0))]) k = Own (Num (Fin 0))"
    by (simp add: getProp_def map_add_def)
  from nk have s2: "setProp (ob @ [(k, Num (Fin 0))]) k (Num (Fin r)) = ob @ [(k, Num (Fin r))]"
    by (simp add: setProp_def map_replace_absent)
  show ?thesis
    by (simp add: addToTotals_def assms(3,4) g s1 g1 s2)
qed

lemma addToTotals_present:
  assumes "map_of ob k = Some (Num (Fin a))" and "distinct (map fst ob)"
    and "e_category e = k" and "e_amount e = Fin r"
  shows "addToTotals ob e = map (\<lambda>p. if fst p = k then (k, Num (Fin (a + r))) else p) ob"
proof -
  from assms(1) have ik: "k \<in> set (map fst ob)"
    by (metis map_of_eq_None_iff option.distinct(1) set_map)
  from assms(1) have g: "getProp ob k = Own (Num (Fin a))"
    by (simp add: getProp_def)
  from ik assms(1,2) have s0: "setProp ob k (Num (Fin a)) = ob"
    by (simp add: setProp_def map_replace_same)
  from ik have s2: "setProp ob k (Num (Fin (a + r)))
                      = map (\<lambda>p. if fst p = k then (k, Num (Fin (a + r))) else p) ob"
    by (simp add: setProp_def)
  show ?thesis
  proof (cases "a = 0")
    case True
    with s0 have "setProp ob k (Num (Fin 0)) = ob" by simp
    with True g s2 show ?thesis
      by (simp add: addToTotals_def assms(3,4))
  next
    case False
    with g s2 show ?thesis
      by (simp add: addToTotals_def assms(3,4))
  qed
qed

lemma map_of_replace:
  "map_of (map (\<lambda>p. if fst p = k then (k, v) else p) ob)
     = (if k \<in> set (map fst ob) then (map_of ob)(k \<mapsto> v) else map_of ob)"
  by (induction ob) (auto simp add: fun_eq_iff)

lemma sum_replace:
  "distinct (map fst ob) \<Longrightarrow> map_of ob k = Some v
     \<Longrightarrow> sum_list (map (\<lambda>p. storedNumber (snd p)) (map (\<lambda>p. if fst p = k then (k, w) else p) ob))
         = sum_list (map (\<lambda>p. storedNumber (snd p)) ob) - storedNumber v + storedNumber w"
proof (induction ob)
  case Nil
  then show ?case by simp
next
  case (Cons p ob)
  show ?case
  proof (cases "fst p = k")
    case True
    with Cons.prems have "k \<notin> set (map fst ob)" and "snd p = v" by auto
    with True show ?thesis
      by (simp add: map_replace_absent comp_def)
  next
    case False
    with Cons show ?thesis by (auto simp add: comp_def)
  qed
qed

text \<open>One step of the accumulation, for an ordinary category and a finite amount.\<close>

lemma addToTotals_numeric:
  assumes inv: "numericTotals ob" and k: "ordinaryKey (e_category e)" and a: "e_amount e = Fin r"
  shows "numericTotals (addToTotals ob e)
       \<and> map_of (addToTotals ob e)
           = (map_of ob)(e_category e \<mapsto>
                Num (Fin ((case map_of ob (e_category e) of None \<Rightarrow> 0 | Some v \<Rightarrow> storedNumber v) + r)))
       \<and> sum_list (map (\<lambda>p. storedNumber (snd p)) (addToTotals ob e))
           = sum_list (map (\<lambda>p. storedNumber (snd p)) ob) + r"
proof (cases "map_of ob (e_category e)")
  case None
  then have nk: "e_category e \<notin> set (map fst ob)"
    by (simp add: map_of_eq_None_iff)
  from addToTotals_absent [OF None k refl a]
  have eq: "addToTotals ob e = ob @ [(e_category e, Num (Fin r))]" .
  show ?thesis
    using inv k nk None
    by (auto simp add: eq numericTotals_def storedNumber_def fun_eq_iff map_add_def
        split: option.splits)
next
  case (Some v)
  with inv have v: "v = Num (Fin (storedNumber v))"
    using numericTotals_lookup by blast
  from inv have d: "distinct (map fst ob)" by (simp add: numericTotals_def)
  from Some v have m: "map_of ob (e_category e) = Some (Num (Fin (storedNumber v)))" by simp
  from addToTotals_present [OF m d refl a]
  have eq: "addToTotals ob e
              = map (\<lambda>p. if fst p = e_category e
                          then (e_category e, Num (Fin (storedNumber v + r))) else p) ob" .
  from Some have ik: "e_category e \<in> set (map fst ob)"
    by (metis map_of_eq_None_iff option.distinct(1) set_map)
  have fsts: "map fst (map (\<lambda>p. if fst p = e_category e
                          then (e_category e, Num (Fin (storedNumber v + r))) else p) ob) = map fst ob"
    by (induction ob) auto
  have n: "numericTotals (addToTotals ob e)"
    using inv k unfolding eq numericTotals_def fsts
    by (auto simp add: list_all_iff storedNumber_def)
  have mo: "map_of (addToTotals ob e)
           = (map_of ob)(e_category e \<mapsto> Num (Fin (storedNumber v + r)))"
    using ik by (simp add: eq map_of_replace)
  have su: "sum_list (map (\<lambda>p. storedNumber (snd p)) (addToTotals ob e))
           = sum_list (map (\<lambda>p. storedNumber (snd p)) ob) + r"
    unfolding eq using sum_replace [OF d Some, of "Num (Fin (storedNumber v + r))"]
    by (simp add: storedNumber_def)
  from n mo su Some show ?thesis by simp
qed

lemma foldl_addToTotals_numeric:
  "numericTotals ob \<Longrightarrow> ordinaryCategories es \<Longrightarrow> finiteAmounts es \<Longrightarrow>
     numericTotals (foldl addToTotals ob es)
   \<and> sum_list (map (\<lambda>p. storedNumber (snd p)) (foldl addToTotals ob es))
       = sum_list (map (\<lambda>p. storedNumber (snd p)) ob) + sum_list (map amountOf es)
   \<and> (\<forall>c. map_of (foldl addToTotals ob es) c
         = (if c \<in> set (map e_category es)
            then Some (Num (Fin ((case map_of ob c of None \<Rightarrow> 0 | Some v \<Rightarrow> storedNumber v)
                                  + sum_list (map amountOf (filter (\<lambda>e. e_category e = c) es)))))
            else map_of ob c))"
proof (induction es arbitrary: ob)
  case Nil
  then show ?case by simp
next
  case (Cons e es)
  from Cons.prems(3) obtain r where r: "e_amount e = Fin r"
    by (auto simp add: finiteAmounts_def split: jsnum.splits)
  from Cons.prems(2) have k: "ordinaryKey (e_category e)" and oc: "ordinaryCategories es"
    by (simp_all add: ordinaryCategories_def)
  from Cons.prems(3) have fa: "finiteAmounts es"
    by (simp add: finiteAmounts_def)
  note step = addToTotals_numeric [OF Cons.prems(1) k r]
  from step have n1: "numericTotals (addToTotals ob e)" by simp
  note ih = Cons.IH [OF n1 oc fa]
  have am: "amountOf e = r" by (simp add: amountOf_def r)
  show ?case
  proof (intro conjI allI)
    show "numericTotals (foldl addToTotals ob (e # es))"
      using ih by simp
    show "sum_list (map (\<lambda>p. storedNumber (snd p)) (foldl addToTotals ob (e # es)))
            = sum_list (map (\<lambda>p. storedNumber (snd p)) ob) + sum_list (map amountOf (e # es))"
      using ih step by (simp add: am)
    fix c
    show "map_of (foldl addToTotals ob (e # es)) c
         = (if c \<in> set (map e_category (e # es))
            then Some (Num (Fin ((case map_of ob c of None \<Rightarrow> 0 | Some v \<Rightarrow> storedNumber v)
                          + sum_list (map amountOf (filter (\<lambda>e. e_category e = c) (e # es))))))
            else map_of ob c)"
    proof (cases "e_category e = c")
      case True
      from ih have "map_of (foldl addToTotals (addToTotals ob e) es) c
         = (if c \<in> set (map e_category es)
            then Some (Num (Fin ((case map_of (addToTotals ob e) c of None \<Rightarrow> 0
                                   | Some v \<Rightarrow> storedNumber v)
                                  + sum_list (map amountOf (filter (\<lambda>e. e_category e = c) es)))))
            else map_of (addToTotals ob e) c)" by blast
      moreover have "c \<notin> set (map e_category es)
                       \<Longrightarrow> filter (\<lambda>e. e_category e = c) es = []"
        by (auto simp add: filter_empty_conv)
      ultimately show ?thesis
        using True step by (simp add: am storedNumber_Fin)
    next
      case False
      from ih have "map_of (foldl addToTotals (addToTotals ob e) es) c
         = (if c \<in> set (map e_category es)
            then Some (Num (Fin ((case map_of (addToTotals ob e) c of None \<Rightarrow> 0
                                   | Some v \<Rightarrow> storedNumber v)
                                  + sum_list (map amountOf (filter (\<lambda>e. e_category e = c) es)))))
            else map_of (addToTotals ob e) c)" by blast
      with False step show ?thesis
        by simp
    qed
  qed
qed

lemma foldl_js_add_finite:
  "finiteAmounts es \<Longrightarrow>
     foldl (\<lambda>sum e. js_add sum (e_amount e)) (Fin a) es = Fin (a + sum_list (map amountOf es))"
  by (induction es arbitrary: a)
     (auto simp add: finiteAmounts_def amountOf_def split: jsnum.splits)

lemma getTotalSpending_empty:
  "getFilteredExpenses tz now st = [] \<Longrightarrow> getTotalSpending tz now st = Fin 0"
  by (simp add: getTotalSpending_def)

lemma getTotalSpending_finite:
  "finiteAmounts (getFilteredExpenses tz now st) \<Longrightarrow>
     getTotalSpending tz now st = Fin (sum_list (map amountOf (getFilteredExpenses tz now st)))"
  by (simp add: getTotalSpending_def foldl_js_add_finite)

lemma getTotalsByCategory_ordinary:
  assumes "ordinaryCategories (getFilteredExpenses tz now st)"
    and "finiteAmounts (getFilteredExpenses tz now st)"
  shows "distinct (map fst (getTotalsByCategory tz now st))"
    and "map_of (getTotalsByCategory tz now st) c
         = (if c \<in> set (map e_category (getFilteredExpenses tz now st))
            then Some (Num (Fin (sum_list (map amountOf
                    (filter (\<lambda>e. e_category e = c) (getFilteredExpenses tz now st))))))
            else None)"
    and "Fin (sum_list (map (\<lambda>p. storedNumber (snd p)) (getTotalsByCategory tz now st)))
         = getTotalSpending tz now st"
proof -
  have n0: "numericTotals []" by (simp add: numericTotals_def)
  note f = foldl_addToTotals_numeric [OF n0 assms]
  from f show "distinct (map fst (getTotalsByCategory tz now st))"
    by (simp add: getTotalsByCategory_def numericTotals_def)
  from f show "map_of (getTotalsByCategory tz now st) c
         = (if c \<in> set (map e_category (getFilteredExpenses tz now st))
            then Some (Num (Fin (sum_list (map amountOf
                    (filter (\<lambda>e. e_category e = c) (getFilteredExpenses tz now st))))))
            else None)"
    by (simp add: getTotalsByCategory_def)
  from f show "Fin (sum_list (map (\<lambda>p. storedNumber (snd p)) (getTotalsByCategory tz now st)))
         = getTotalSpending tz now st"
    by (simp add: getTotalsByCategory_def getTotalSpending_finite [OF assms(2)])
qed

lemma aggregation_example:
  "getTotalSpending 0 1704715200000 sampleScreen = Fin 35
   \<and> getTotalsByCategory 0 1704715200000 sampleScreen
       = [(''Food'', Num (Fin 15)), (''Books'', Num (Fin 20))]"
  by code_simp

text \<open>
  C4. The claim: \<open>getTotalsByCategory\<close> maps every category of the filtered view to the
  sum of its amounts. The code on one record of amount 10: with the category
  \<open>constructor\<close>, \<open>totals[e.category]\<close> reads the inherited function, which is truthy, so
  no 0 is stored and \<open>+=\<close> concatenates: the entry is a string; with the category
  \<open>__proto__\<close> the assignment goes to the inherited setter, which ignores a string, and
  the result has no entry at all.
\<close>

theorem prototype_keys_in_totals:
  "getTotalsByCategory 0 1704715200000
     ((initialScreen None)
        \<lparr>expenses := [\<lparr>e_id = 1, e_amount = Fin 10, e_category = ''constructor'',
                       e_note = None, e_date = ''2024-01-08''\<rparr>]\<rparr>)
     = [(''constructor'', Text [FunctionText ''constructor'', NumberText (Fin 10)])]
   \<and> getTotalsByCategory 0 1704715200000
     ((initialScreen None)
        \<lparr>expenses := [\<lparr>e_id = 1, e_amount = Fin 10, e_category = ''__proto__'', e_note = None,
                       e_date = ''2024-01-08''\<rparr>]\<rparr>)
     = []"
  by code_simp

text \<open>
  C9. The claim: the values of \<open>getTotalsByCategory\<close> add up to \<open>getTotalSpending\<close>. The
  code on one record of amount 10 and category \<open>__proto__\<close>: the total is 10, and
  \<open>getTotalsByCategory\<close> has no entry, so its values add up to 0.
\<close>

theorem category_totals_miss_amount:
  "getTotalSpending 0 1704715200000
     ((initialScreen None)
        \<lparr>expenses := [\<lparr>e_id = 1, e_amount = Fin 10, e_category = ''__proto__'', e_note = None,
                       e_date = ''2024-01-08''\<rparr>]\<rparr>) = Fin 10
   \<and> getTotalsByCategory 0 1704715200000
     ((initialScreen None)
        \<lparr>expenses := [\<lparr>e_id = 1, e_amount = Fin 10, e_category = ''__proto__'', e_note = None,
                       e_date = ''2024-01-08''\<rparr>]\<rparr>) = []"
  by code_simp

end
